theory Spec2Isabelle
  imports Main
begin

section \<open>Texts\<close>

text \<open>
  A Python \<open>str\<close> is modelled as a HOL \<open>string\<close>, one \<open>char\<close> per code point, so the
  model covers texts whose code points are below 256. Among those, \<open>str.isspace\<close> holds
  for the code points 9 to 13, 28 to 32, 133 and 160; \<open>str.strip()\<close> without argument
  removes the longest run of such characters from both ends.
\<close>

definition isspace :: "char \<Rightarrow> bool" where
  "isspace c = (of_char c \<in> set [9, 10, 11, 12, 13, 28, 29, 30, 31, 32, 133, 160 :: nat])"

definition lstrip :: "string \<Rightarrow> string" where
  "lstrip s = dropWhile isspace s"

definition rstrip :: "string \<Rightarrow> string" where
  "rstrip s = rev (dropWhile isspace (rev s))"

definition strip :: "string \<Rightarrow> string" where
  "strip s = rstrip (lstrip s)"


section \<open>Exceptions, objects and checker functions\<close>

text \<open>
  The exceptions that can travel through \<open>get_tests\<close>, \<open>run_tests\<close> and \<open>main\<close>.
  \<open>CalledProcessError\<close> carries \<open>returncode\<close> and \<open>stdout\<close>; \<open>SystemExit\<close> carries the
  status given to \<open>sys.exit\<close>.
\<close>

datatype exn =
    SystemExit int
  | CalledProcessError int string
  | TypeError
  | AttributeError
  | ZeroDivisionError
  | OSError
  | ImportError
  | ValueError
  | UnicodeDecodeError
  | OtherError string

text \<open>
  The \<open>test\<close> attribute of a checker module is a Python function of one or of two
  positional parameters. Applied to texts it raises or returns an object, of which the
  judging step only uses the truth value.
\<close>

datatype pyfun =
    Fun1 "string \<Rightarrow> exn + bool"
  | Fun2 "string \<Rightarrow> string \<Rightarrow> exn + bool"

text \<open>The third component of a test tuple: a text, a function, or \<open>None\<close>.\<close>

datatype pyobj = PyStr string | PyFun pyfun | PyNone

fun is_none :: "pyobj \<Rightarrow> bool" where
  "is_none PyNone = True"
| "is_none (PyStr s) = False"
| "is_none (PyFun f) = False"

text \<open>
  The call \<open>obj(a, b)\<close> with two positional arguments: a function of one parameter, a
  text and \<open>None\<close> all raise \<open>TypeError\<close>.
\<close>

fun call2 :: "pyobj \<Rightarrow> string \<Rightarrow> string \<Rightarrow> exn + bool" where
  "call2 (PyFun (Fun2 f)) a b = f a b"
| "call2 (PyFun (Fun1 f)) a b = Inl TypeError"
| "call2 (PyStr s) a b = Inl TypeError"
| "call2 PyNone a b = Inl TypeError"


section \<open>The test set\<close>

text \<open>
  \<open>tests\<close> is a Python dict \<open>{ name: (type, input, output) }\<close>: an association list in
  insertion order; storing under a key that is present replaces the value in place.
\<close>

type_synonym test = "string \<times> string \<times> pyobj"

type_synonym tests = "(string \<times> test) list"

fun dict_set :: "'k \<Rightarrow> 'v \<Rightarrow> ('k \<times> 'v) list \<Rightarrow> ('k \<times> 'v) list" where
  "dict_set k v [] = [(k, v)]"
| "dict_set k v ((k', v') # d) =
     (if k = k' then (k, v) # d else (k', v') # dict_set k v d)"


section \<open>The test directory\<close>

text \<open>
  What \<open>get_tests\<close> sees of \<open>test_dir\<close>:
  \<^item> \<open>listing\<close>: the names of the directory's entries, in the order \<open>glob\<close> meets them;
  \<^item> \<open>contents\<close>: for each regular file, the text that reading it in text mode returns
    (\<open>os.path.isfile\<close> holds exactly for these names; opening any other entry raises
    \<open>OSError\<close>; regular files that cannot be read as text are not part of the model);
  \<^item> \<open>import_test\<close>: what \<open>importlib.import_module(name).test\<close> evaluates to, with
    \<open>test_dir\<close> first on the module search path;
  \<^item> \<open>json_load\<close>: what \<open>json.load\<close> yields for \<open>TESTS.json\<close>, an object whose values are
    lists of texts, in the order of \<open>items()\<close>.
\<close>

record test_dir =
  listing :: "string list"
  contents :: "string \<rightharpoonup> string"
  import_test :: "string \<Rightarrow> exn + pyobj"
  json_load :: "exn + (string \<times> string list) list"

definition isfile :: "test_dir \<Rightarrow> string \<Rightarrow> bool" where
  "isfile d p = (case contents d p of None \<Rightarrow> False | Some t \<Rightarrow> True)"

text \<open>
  \<open>glob.glob(os.path.join(test_dir, '*.in'))\<close>: the entries whose name ends in \<open>.in\<close>
  and does not start with a dot.
\<close>

definition matches_in :: "string \<Rightarrow> bool" where
  "matches_in x =
     (case x of [] \<Rightarrow> False
      | c # cs \<Rightarrow> c \<noteq> CHR ''.'' \<and> drop (length x - 3) x = ''.in'')"

definition glob_in :: "test_dir \<Rightarrow> string list" where
  "glob_in d = filter matches_in (listing d)"

text \<open>\<open>open(x, 'r')\<close> followed by \<open>f.read()\<close>.\<close>

definition read_file :: "test_dir \<Rightarrow> string \<Rightarrow> exn + string" where
  "read_file d p = (case contents d p of None \<Rightarrow> Inl OSError | Some t \<Rightarrow> Inr t)"


section \<open>Discovery: \<open>get_tests\<close>\<close>

text \<open>
  The body of the loop over the \<open>.in\<close> files (lines 135 to 158). \<open>x\<close> is the entry's
  name; \<open>x[:-3]\<close> drops the extension. The three formats are three independent \<open>if\<close>s.
\<close>

definition in_file :: "test_dir \<Rightarrow> pyobj \<Rightarrow> string \<Rightarrow> tests \<Rightarrow> exn + tests" where
  "in_file d alltests x tests =
     (let name = take (length x - 3) x in
      case read_file d x of Inl e \<Rightarrow> Inl e
      | Inr test_input \<Rightarrow>
      (case (if isfile d (name @ ''.out'')
             then (case read_file d (name @ ''.out'') of Inl e \<Rightarrow> Inl e
                   | Inr test_output \<Rightarrow>
                       Inr (dict_set (name @ ''#in/out'')
                              (''static'', test_input, PyStr test_output) tests))
             else Inr tests) of Inl e \<Rightarrow> Inl e
       | Inr tests1 \<Rightarrow>
       (case (if isfile d (name @ ''.py'')
              then (case import_test d name of Inl e \<Rightarrow> Inl e
                    | Inr checker \<Rightarrow>
                        Inr (dict_set (name @ ''#in/py'')
                               (''checker'', test_input, checker) tests1))
              else Inr tests1) of Inl e \<Rightarrow> Inl e
        | Inr tests2 \<Rightarrow>
            Inr (if \<not> is_none alltests
                 then dict_set (name @ ''#in/atpy'')
                        (''checker'', test_input, alltests) tests2
                 else tests2))))"

fun in_loop :: "test_dir \<Rightarrow> pyobj \<Rightarrow> string list \<Rightarrow> tests \<Rightarrow> exn + tests" where
  "in_loop d alltests [] tests = Inr tests"
| "in_loop d alltests (x # xs) tests =
     (case in_file d alltests x tests of Inl e \<Rightarrow> Inl e
      | Inr tests' \<Rightarrow> in_loop d alltests xs tests')"

text \<open>
  The body of the loop over the manifest (lines 166 to 172): \<open>if len(test) == 1\<close>,
  \<open>elif len(test) == 2\<close>, and no \<open>else\<close>.
\<close>

definition json_entry :: "pyobj \<Rightarrow> string \<times> string list \<Rightarrow> tests \<Rightarrow> tests" where
  "json_entry alltests item tests =
     (case item of (name, test) \<Rightarrow>
        if length test = 1
        then dict_set (name @ ''#json/atpy'') (''checker'', test ! 0, alltests) tests
        else if length test = 2
        then dict_set (name @ ''#json'') (''static'', test ! 0, PyStr (test ! 1)) tests
        else tests)"

fun json_loop :: "pyobj \<Rightarrow> (string \<times> string list) list \<Rightarrow> tests \<Rightarrow> tests" where
  "json_loop alltests [] tests = tests"
| "json_loop alltests (item # items) tests =
     json_loop alltests items (json_entry alltests item tests)"

definition get_tests :: "test_dir \<Rightarrow> exn + tests" where
  "get_tests d =
     (case (if isfile d ''ALLTESTS.py'' then import_test d ''ALLTESTS'' else Inr PyNone) of
        Inl e \<Rightarrow> Inl e
      | Inr alltests \<Rightarrow>
      (case in_loop d alltests (glob_in d) [] of Inl e \<Rightarrow> Inl e
       | Inr tests \<Rightarrow>
           if isfile d ''TESTS.json''
           then (case json_load d of Inl e \<Rightarrow> Inl e
                 | Inr file \<Rightarrow> Inr (json_loop alltests file tests))
           else Inr tests))"


section \<open>Console output\<close>

text \<open>
  What is printed, without colours. The elapsed time of a run and the rounded percentage
  of the final tally are floating-point values and are not part of the model: \<open>PassedIn\<close>
  and \<open>FailedIn\<close> stand for the lines showing the time, \<open>Tally\<close> for the line showing the
  percentage.
\<close>

datatype message =
    Running string string
  | PassedIn
  | FailedIn
  | FailedBang
  | ExitedNonZero int
  | TooLong
  | ExpectedOutput
  | ActualOutput
  | Output
  | Verbatim string
  | AllPassed
  | Tally nat nat

datatype line =
    InProgress message
  | Success message
  | Error bool bool message
  | Blank

text \<open>
  A computation appends to the lines printed so far and either returns a value or raises.
\<close>

type_synonym 'a io = "line list \<Rightarrow> (exn + 'a) \<times> line list"

definition result :: "'a \<Rightarrow> 'a io" where
  "result a = (\<lambda>out. (Inr a, out))"

definition raise :: "exn \<Rightarrow> 'a io" where
  "raise e = (\<lambda>out. (Inl e, out))"

definition lift :: "exn + 'a \<Rightarrow> 'a io" where
  "lift r = (\<lambda>out. (r, out))"

definition and_then :: "'a io \<Rightarrow> ('a \<Rightarrow> 'b io) \<Rightarrow> 'b io" where
  "and_then m f =
     (\<lambda>out. case m out of (Inl e, out') \<Rightarrow> (Inl e, out') | (Inr a, out') \<Rightarrow> f a out')"

definition then_do :: "unit io \<Rightarrow> 'a io \<Rightarrow> 'a io" where
  "then_do m k = and_then m (\<lambda>u. k)"

text \<open>
  \<open>print_error(text, exit_program, prefix, icon)\<close> prints the line and, when
  \<open>exit_program\<close> holds, calls \<open>sys.exit(1)\<close>. The \<open>Error\<close> line records \<open>prefix\<close> and
  \<open>icon\<close>.
\<close>

definition print_error :: "message \<Rightarrow> bool \<Rightarrow> bool \<Rightarrow> bool \<Rightarrow> unit io" where
  "print_error text exit_program prefix icon =
     (\<lambda>out. (if exit_program then Inl (SystemExit 1) else Inr (),
             out @ [Error prefix icon text]))"

definition print_success :: "message \<Rightarrow> unit io" where
  "print_success text = (\<lambda>out. (Inr (), out @ [Success text]))"

definition print_inprogress :: "message \<Rightarrow> unit io" where
  "print_inprogress text = (\<lambda>out. (Inr (), out @ [InProgress text]))"

definition print_blank :: "unit io" where
  "print_blank = (\<lambda>out. (Inr (), out @ [Blank]))"


section \<open>Running and judging: \<open>run_tests\<close>\<close>

text \<open>
  What the program under test wrote on its standard output, as the decoding of line 188
  (\<open>encoding='utf-8'\<close>) sees it: either the bytes are the UTF-8 encoding of a text, or
  they are no UTF-8 encoding at all.
\<close>

datatype written = Utf8 string | NotUtf8

text \<open>
  With an encoding given, \<open>subprocess\<close> reads the pipe in text mode: after decoding, the
  captured text has every \<open>CR LF\<close> replaced by \<open>LF\<close> and then every remaining \<open>CR\<close>
  replaced by \<open>LF\<close> (\<open>data.replace("\r\n", "\n").replace("\r", "\n")\<close>).
\<close>

fun replace_crlf :: "string \<Rightarrow> string" where
  "replace_crlf (a # b # cs) =
     (if a = CHR 0x0D \<and> b = CHR 0x0A then CHR 0x0A # replace_crlf cs
      else a # replace_crlf (b # cs))"
| "replace_crlf cs = cs"

definition replace_cr :: "string \<Rightarrow> string" where
  "replace_cr s = map (\<lambda>c. if c = CHR 0x0D then CHR 0x0A else c) s"

definition translate_newlines :: "string \<Rightarrow> string" where
  "translate_newlines s = replace_cr (replace_crlf s)"

text \<open>
  The program under test maps the text on its standard input to its exit status and
  what it wrote on its standard output. \<open>subprocess.run\<close> first collects and decodes
  the output, which raises \<open>UnicodeDecodeError\<close> when the bytes are no UTF-8, and only
  then looks at the exit status: with \<open>check=True\<close> a non-zero status raises
  \<open>CalledProcessError\<close>, which carries the captured text.
\<close>

type_synonym program = "string \<Rightarrow> int \<times> written"

definition subprocess_run :: "program \<Rightarrow> string \<Rightarrow> string io" where
  "subprocess_run program test_input =
     (case program test_input of (returncode, w) \<Rightarrow>
        (case w of
           NotUtf8 \<Rightarrow> raise UnicodeDecodeError
         | Utf8 raw \<Rightarrow>
             let stdout = translate_newlines raw in
             if returncode \<noteq> 0 then raise (CalledProcessError returncode stdout)
             else result stdout))"

text \<open>The \<open>try\<close> block of the loop body (lines 184 to 220).\<close>

definition try_block :: "program \<Rightarrow> test \<Rightarrow> nat \<Rightarrow> nat io" where
  "try_block program test passed_tests =
     (case test of (test_type, test_input, test_output) \<Rightarrow>
      and_then (subprocess_run program test_input) (\<lambda>stdout.
        let actual_output = strip stdout in
        if test_type = ''static'' then
          (case test_output of
             PyStr expected \<Rightarrow>
               if actual_output = strip expected
               then then_do (print_success PassedIn) (result (passed_tests + 1))
               else then_do (print_error FailedIn False False True)
                   (then_do
                     (if length expected > 100 \<or> length actual_output > 100
                      then print_error TooLong False False False
                      else then_do (print_error ExpectedOutput False False False)
                          (then_do (print_error (Verbatim expected) False False False)
                          (then_do (print_error ActualOutput False False False)
                                   (print_error (Verbatim actual_output) False False False))))
                     (result passed_tests))
           | PyFun f \<Rightarrow> raise AttributeError
           | PyNone \<Rightarrow> raise AttributeError)
        else if test_type = ''checker'' then
          and_then (lift (call2 test_output test_input actual_output)) (\<lambda>ok.
            if ok
            then then_do (print_success PassedIn) (result (passed_tests + 1))
            else then_do (print_error FailedIn False False True)
                (then_do
                  (if length actual_output > 100
                   then print_error TooLong False False False
                   else then_do (print_error Output False False False)
                                (print_error (Verbatim actual_output) False False False))
                  (result passed_tests)))
        else result passed_tests))"

text \<open>The \<open>except subprocess.CalledProcessError\<close> clause (lines 221 to 230).\<close>

definition except_block :: "int \<Rightarrow> string \<Rightarrow> nat \<Rightarrow> nat io" where
  "except_block returncode stdout passed_tests =
     then_do (print_error FailedBang False False True)
    (then_do (print_error (ExitedNonZero returncode) False False True)
    (then_do
      (if length stdout > 100
       then print_error TooLong False False False
       else then_do (print_error Output False False False)
                    (print_error (Verbatim (CHR '' '' # stdout)) False False False))
      (result passed_tests)))"

definition try_except :: "'a io \<Rightarrow> (int \<Rightarrow> string \<Rightarrow> 'a io) \<Rightarrow> 'a io" where
  "try_except body handler =
     (\<lambda>out. case body out of
        (Inl (CalledProcessError returncode stdout), out') \<Rightarrow> handler returncode stdout out'
      | r \<Rightarrow> r)"

text \<open>One iteration of the loop of \<open>run_tests\<close>, from the running count to the new one.\<close>

definition run_test :: "program \<Rightarrow> string \<times> test \<Rightarrow> nat \<Rightarrow> nat io" where
  "run_test program item passed_tests =
     (case item of (name, test) \<Rightarrow>
        then_do (print_inprogress (Running (fst test) name))
          (try_except (try_block program test passed_tests)
             (\<lambda>returncode stdout. except_block returncode stdout passed_tests)))"

fun run_tests_loop :: "program \<Rightarrow> tests \<Rightarrow> nat \<Rightarrow> nat io" where
  "run_tests_loop program [] passed_tests out = (Inr passed_tests, out)"
| "run_tests_loop program (item # items) passed_tests out =
     (case run_test program item passed_tests out of
        (Inl e, out') \<Rightarrow> (Inl e, out')
      | (Inr passed_tests', out') \<Rightarrow> run_tests_loop program items passed_tests' out')"

definition run_tests :: "program \<Rightarrow> tests \<Rightarrow> nat io" where
  "run_tests program tests = run_tests_loop program tests 0"


section \<open>The final report and \<open>main\<close>\<close>

text \<open>
  Lines 248 to 253. The text of the tally is evaluated before \<open>print_error\<close> is called,
  and its division \<open>passed/len(tests)\<close> raises \<open>ZeroDivisionError\<close> when the divisor is 0.
\<close>

definition report :: "nat \<Rightarrow> nat \<Rightarrow> unit io" where
  "report passed len_tests =
     (if passed = len_tests then print_success AllPassed
      else if len_tests = 0 then raise ZeroDivisionError
      else print_error (Tally passed len_tests) False False True)"

text \<open>
  \<open>main\<close> from line 244 on: the command line and the compiler run before it are outside
  the model.
\<close>

definition main :: "test_dir \<Rightarrow> program \<Rightarrow> unit io" where
  "main d program =
     and_then (lift (get_tests d)) (\<lambda>tests.
     and_then (run_tests program tests) (\<lambda>passed.
     then_do print_blank (report passed (length tests))))"

text \<open>
  The exit status of the process: 0 when \<open>main\<close> returns, the argument of \<open>sys.exit\<close>,
  and 1 for any other exception that nothing catches.
\<close>

fun exit_status :: "exn + 'a \<Rightarrow> int" where
  "exit_status (Inr a) = 0"
| "exit_status (Inl (SystemExit n)) = n"
| "exit_status (Inl e) = 1"


section \<open>Unfolding the console computations\<close>

lemmas io_defs = result_def raise_def lift_def and_then_def then_do_def
  print_error_def print_success_def print_inprogress_def print_blank_def

lemmas discovery_defs = get_tests_def in_file_def isfile_def read_file_def glob_in_def
  matches_in_def json_entry_def

lemmas run_defs = run_tests_def run_test_def try_except_def try_block_def subprocess_run_def
  except_block_def main_def report_def Let_def

lemmas strip_defs = strip_def lstrip_def rstrip_def isspace_def translate_newlines_def
  replace_cr_def

lemma except_block_eq:
  "except_block rc so p out =
     (Inr p, out @ [Error False True FailedBang, Error False True (ExitedNonZero rc)] @
        (if length so > 100 then [Error False False TooLong]
         else [Error False False Output, Error False False (Verbatim (CHR '' '' # so))]))"
  by (simp add: except_block_def io_defs)

lemma subprocess_run_nonzero:
  "program i = (rc, Utf8 raw) \<Longrightarrow> rc \<noteq> 0 \<Longrightarrow>
     subprocess_run program i out =
       (Inl (CalledProcessError rc (translate_newlines raw)), out)"
  by (simp add: subprocess_run_def io_defs)

lemma subprocess_run_zero:
  "program i = (0, Utf8 raw) \<Longrightarrow>
     subprocess_run program i out = (Inr (translate_newlines raw), out)"
  by (simp add: subprocess_run_def io_defs)

lemma subprocess_run_undecodable:
  "program i = (rc, NotUtf8) \<Longrightarrow> subprocess_run program i out = (Inl UnicodeDecodeError, out)"
  by (simp add: subprocess_run_def io_defs)

lemma try_block_nonzero:
  "program i = (rc, Utf8 raw) \<Longrightarrow> rc \<noteq> 0 \<Longrightarrow>
     try_block program (ty, i, chk) p out =
       (Inl (CalledProcessError rc (translate_newlines raw)), out)"
  by (simp add: try_block_def and_then_def subprocess_run_nonzero)

lemma run_test_nonzero:
  "program i = (rc, Utf8 raw) \<Longrightarrow> rc \<noteq> 0 \<Longrightarrow>
     run_test program (name, ty, i, chk) p out =
       (Inr p, out @ [InProgress (Running ty name), Error False True FailedBang,
                      Error False True (ExitedNonZero rc)] @
        (if length (translate_newlines raw) > 100 then [Error False False TooLong]
         else [Error False False Output,
               Error False False (Verbatim (CHR '' '' # translate_newlines raw))]))"
  by (simp add: run_test_def try_except_def try_block_nonzero except_block_eq then_do_def
      and_then_def print_inprogress_def)

lemma run_test_undecodable:
  "program i = (rc, NotUtf8) \<Longrightarrow>
     run_test program (name, ty, i, chk) p out =
       (Inl UnicodeDecodeError, out @ [InProgress (Running ty name)])"
  by (simp add: run_test_def try_except_def try_block_def subprocess_run_undecodable
      then_do_def and_then_def print_inprogress_def)

lemma run_test_static:
  assumes "program test_input = (0, Utf8 raw)"
  shows "fst (run_test program (name, ''static'', test_input, PyStr expected) passed_tests out) =
           Inr (if strip (translate_newlines raw) = strip expected
                then passed_tests + 1 else passed_tests)"
  using assms
  by (simp add: run_test_def try_except_def try_block_def subprocess_run_zero io_defs Let_def)


section \<open>The pass count never exceeds the number of tests\<close>

lemma try_block_le:
  "try_block program t p out = (Inr p', out') \<Longrightarrow> p' \<le> Suc p"
  by (auto simp: try_block_def io_defs subprocess_run_def Let_def
      split: prod.splits if_splits pyobj.splits sum.splits written.splits)

lemma run_test_le:
  "run_test program item p out = (Inr p', out') \<Longrightarrow> p' \<le> Suc p"
  by (auto simp: run_test_def try_except_def except_block_eq then_do_def and_then_def
      print_inprogress_def
      split: prod.splits sum.splits exn.splits dest: try_block_le)

lemma run_tests_loop_le:
  "run_tests_loop program tests p out = (Inr p', out') \<Longrightarrow> p' \<le> p + length tests"
proof (induction tests arbitrary: p out)
  case Nil
  then show ?case by simp
next
  case (Cons item items)
  then show ?case
    by (fastforce split: prod.splits sum.splits dest: run_test_le)
qed

lemma run_tests_le:
  "run_tests program tests out = (Inr passed, out') \<Longrightarrow> passed \<le> length tests"
  using run_tests_loop_le [of program tests 0 out passed out'] by (simp add: run_tests_def)

lemma report_raises_iff:
  "(fst (report p n out) = Inl ZeroDivisionError) = (p \<noteq> n \<and> n = 0)"
  by (simp add: report_def io_defs)

lemma main_at_report:
  assumes "get_tests d = Inr tests" and "run_tests program tests out = (Inr passed, out')"
  shows "main d program out =
     (Inr (), out' @ [Blank, if passed = length tests then Success AllPassed
                             else Error False True (Tally passed (length tests))])"
proof -
  have "passed \<le> length tests" using assms(2) by (rule run_tests_le)
  then show ?thesis using assms
    by (auto simp: main_def report_def io_defs)
qed


section \<open>Stripping\<close>

lemma strip_pad:
  assumes "\<forall>c\<in>set l. isspace c" and "\<forall>c\<in>set r. isspace c"
  shows "strip (l @ s @ r) = strip s"
proof -
  have l: "lstrip (l @ s @ r) = lstrip (s @ r)"
    using assms(1) by (simp add: lstrip_def dropWhile_append)
  show ?thesis
  proof (cases "\<forall>c\<in>set s. isspace c")
    case True
    then have "lstrip (s @ r) = []" "lstrip s = []" using assms(2) by (auto simp: lstrip_def)
    then show ?thesis using l by (simp add: strip_def rstrip_def)
  next
    case False
    then have "lstrip (s @ r) = lstrip s @ r" by (auto simp: lstrip_def dropWhile_append)
    then show ?thesis using l assms(2)
      by (simp add: strip_def rstrip_def dropWhile_append)
  qed
qed

lemma strip_inner:
  assumes "\<exists>c\<in>set x. \<not> isspace c" and "\<exists>c\<in>set y. \<not> isspace c"
  shows "strip (x @ w @ y) = lstrip x @ w @ rstrip y"
proof -
  have "lstrip (x @ w @ y) = lstrip x @ w @ y"
    using assms(1) by (auto simp: lstrip_def dropWhile_append)
  moreover have "rstrip (lstrip x @ w @ y) = lstrip x @ w @ rstrip y"
    using assms(2) by (auto simp: rstrip_def dropWhile_append)
  ultimately show ?thesis by (simp add: strip_def)
qed


section \<open>Judging\<close>

text \<open>
  C1 (the code departs from its own documentation). The module docstring says that the
  \<open>test\<close> function of a per-test \<open>.py\<close> file takes the output as its parameter, but line 210
  calls every checker, the per-test one too, with the input and the actual output. So,
  for a program that exits with status 0 and whose output decodes: a per-test checker
  written as documented, with one parameter \<open>p\<close>, raises \<open>TypeError\<close> whatever \<open>p\<close> would
  answer on the actual output (nothing is counted and the run stops); and a per-test
  checker \<open>q\<close> of two parameters is judged by \<open>q\<close> applied to the input and the stripped
  captured output.
\<close>

theorem per_test_checker_called_with_input_and_output:
  "(program test_input = (0, Utf8 raw) \<longrightarrow>
      run_test program (name, ''checker'', test_input, PyFun (Fun1 p)) passed_tests out =
        (Inl TypeError, out @ [InProgress (Running ''checker'' name)])) \<and>
   (program test_input = (0, Utf8 raw) \<and>
    q test_input (strip (translate_newlines raw)) = Inr ok \<longrightarrow>
      fst (run_test program (name, ''checker'', test_input, PyFun (Fun2 q)) passed_tests out) =
        Inr (if ok then passed_tests + 1 else passed_tests))"
  by (simp add: run_test_def try_except_def try_block_def subprocess_run_zero io_defs Let_def)

theorem per_test_checker_called_with_input_and_output_witness:
  "(\<lambda>i. (0::int, Utf8 ''25'')) ''5'' = (0, Utf8 ''25'') \<and>
   run_test (\<lambda>i. (0, Utf8 ''25''))
     (''foo#in/py'', ''checker'', ''5'', PyFun (Fun1 (\<lambda>out. Inr (out = ''25'')))) 0 []
     = (Inl TypeError, [InProgress (Running ''checker'' ''foo#in/py'')]) \<and>
   fst (run_test (\<lambda>i. (0, Utf8 ''25''))
     (''foo#in/py'', ''checker'', ''5'',
      PyFun (Fun2 (\<lambda>i out. Inr (i = ''5'' \<and> out = ''25'')))) 0 [])
     = Inr 1"
  using per_test_checker_called_with_input_and_output
    [where program = "\<lambda>i. (0, Utf8 ''25'')" and test_input = "''5''" and raw = "''25''"
      and name = "''foo#in/py''" and p = "\<lambda>out. Inr (out = ''25'')" and passed_tests = 0
      and out = "[]" and q = "\<lambda>i out. Inr (i = ''5'' \<and> out = ''25'')" and ok = True]
  by (simp add: strip_defs)

text \<open>
  The same on a whole run: the directory holds \<open>foo.in\<close> and the per-test checker
  \<open>foo.py\<close> with a one-parameter \<open>test\<close> that accepts the output \<open>25\<close>; the program
  prints \<open>25\<close> and exits with status 0. Discovery yields the test \<open>foo#in/py\<close>, and
  \<open>main\<close> ends in \<open>TypeError\<close> with exit status 1.
\<close>

lemma per_test_checker_run_aborts:
  "main \<lparr>listing = [''foo.in'', ''foo.py''],
         contents = map_of [(''foo.in'', ''5''), (''foo.py'', ''def test(output): ...'')],
         import_test = (\<lambda>name. if name = ''foo''
                                then Inr (PyFun (Fun1 (\<lambda>out. Inr (out = ''25''))))
                                else Inl ImportError),
         json_load = Inl OSError\<rparr> (\<lambda>i. (0, Utf8 ''25'')) []
    = (Inl TypeError, [InProgress (Running ''checker'' ''foo#in/py'')]) \<and>
   exit_status (Inl TypeError :: exn + unit) = 1"
  by (simp add: discovery_defs run_defs io_defs strip_defs)

text \<open>
  C3. The actual output of a test is the captured standard output: what the program
  wrote, decoded, with \<open>CR LF\<close> and \<open>CR\<close> turned into \<open>LF\<close> by the capture. For a Static
  test whose program run exits with status 0, the test is counted as passed exactly
  when the stripped actual output equals the stripped expected output, and the count
  stays as it was exactly when they differ. Texts that differ only in leading and
  trailing whitespace strip to the same text, so they pass; texts that differ in the
  part \<open>w\<close> between two pieces that each hold a non-whitespace character strip to
  different texts, so they fail.
\<close>

theorem static_passes_iff_stripped_equal:
  "(program test_input = (0, Utf8 raw) \<longrightarrow>
      (fst (run_test program (name, ''static'', test_input, PyStr expected) passed_tests out)
         = Inr (passed_tests + 1))
       = (strip (translate_newlines raw) = strip expected)) \<and>
   (program test_input = (0, Utf8 raw) \<longrightarrow>
      (fst (run_test program (name, ''static'', test_input, PyStr expected) passed_tests out)
         = Inr passed_tests)
       = (strip (translate_newlines raw) \<noteq> strip expected)) \<and>
   ((\<forall>c\<in>set (l @ r @ l' @ r'). isspace c) \<longrightarrow> strip (l @ s @ r) = strip (l' @ s @ r')) \<and>
   ((\<exists>c\<in>set x. \<not> isspace c) \<and> (\<exists>c\<in>set y. \<not> isspace c) \<and> w \<noteq> w' \<longrightarrow>
      strip (x @ w @ y) \<noteq> strip (x @ w' @ y))"
proof (intro conjI impI)
  assume "program test_input = (0, Utf8 raw)"
  then show "(fst (run_test program (name, ''static'', test_input, PyStr expected) passed_tests out)
         = Inr (passed_tests + 1))
       = (strip (translate_newlines raw) = strip expected)"
    by (simp add: run_test_static)
next
  assume "program test_input = (0, Utf8 raw)"
  then show "(fst (run_test program (name, ''static'', test_input, PyStr expected) passed_tests out)
         = Inr passed_tests)
       = (strip (translate_newlines raw) \<noteq> strip expected)"
    by (simp add: run_test_static)
next
  assume "\<forall>c\<in>set (l @ r @ l' @ r'). isspace c"
  then show "strip (l @ s @ r) = strip (l' @ s @ r')"
    by (simp add: strip_pad ball_Un)
next
  assume "(\<exists>c\<in>set x. \<not> isspace c) \<and> (\<exists>c\<in>set y. \<not> isspace c) \<and> w \<noteq> w'"
  then show "strip (x @ w @ y) \<noteq> strip (x @ w' @ y)"
    by (simp add: strip_inner)
qed

theorem static_passes_iff_stripped_equal_witness:
  "(\<lambda>i. (0::int, Utf8 ''25 '')) ''5'' = (0, Utf8 ''25 '') \<and>
   fst (run_test (\<lambda>i. (0, Utf8 ''25 ''))
          (''t'', ''static'', ''5'', PyStr [CHR ''2'', CHR ''5'', CHR 0x0A]) 0 []) = Inr 1 \<and>
   strip ''25 '' = strip [CHR ''2'', CHR ''5'', CHR 0x0A] \<and>
   strip ''a b'' \<noteq> strip ''a  b''"
  using static_passes_iff_stripped_equal
    [where program = "\<lambda>i. (0, Utf8 ''25 '')" and test_input = "''5''" and raw = "''25 ''"
      and name = "''t''" and expected = "[CHR ''2'', CHR ''5'', CHR 0x0A]"
      and passed_tests = 0 and out = "[]"
      and l = "[]" and r = "'' ''" and l' = "[]" and r' = "[CHR 0x0A]" and s = "''25''"
      and x = "''a''" and y = "''b''" and w = "'' ''" and w' = "''  ''"]
  by (simp add: strip_defs)

text \<open>
  What the capture does to line ends, on two runs that exit with status 0. A program
  that writes \<open>a CR b\<close> is captured as \<open>a LF b\<close>: against the expected text \<open>a CR b\<close> (a
  manifest can hold it) the test fails. A program that writes \<open>1 CR LF 2 CR LF\<close> is
  captured as \<open>1 LF 2 LF\<close>: against the expected text \<open>1 LF 2 LF\<close> the test passes.
\<close>

lemma captured_line_ends:
  "fst (run_test (\<lambda>i. (0, Utf8 [CHR ''a'', CHR 0x0D, CHR ''b'']))
          (''t#json'', ''static'', ''5'', PyStr [CHR ''a'', CHR 0x0D, CHR ''b'']) 0 []) = Inr 0 \<and>
   fst (run_test (\<lambda>i. (0, Utf8 [CHR ''1'', CHR 0x0D, CHR 0x0A, CHR ''2'', CHR 0x0D, CHR 0x0A]))
          (''t#in/out'', ''static'', ''5'',
           PyStr [CHR ''1'', CHR 0x0A, CHR ''2'', CHR 0x0A]) 0 []) = Inr 1"
  by (simp add: run_test_static strip_defs)

text \<open>
  C8, as the claim states it, fails. A program exits with status 1 after printing 101
  characters: the diagnostic holds the notice \<open>TooLong\<close> and not the captured output.
  A program exits with status 1 after writing bytes that are no UTF-8: decoding them
  raises \<open>UnicodeDecodeError\<close> before the exit status is looked at, no execution failure
  is reported, and the run stops there instead of going on to the next test.
\<close>

theorem long_output_not_attached:
  "run_test (\<lambda>i. (1, Utf8 (replicate 101 (CHR ''a''))))
       (''t'', ''static'', ''5'', PyStr ''25'') 0 [] =
     (Inr 0, [InProgress (Running ''static'' ''t''), Error False True FailedBang,
              Error False True (ExitedNonZero 1), Error False False TooLong]) \<and>
   run_tests (\<lambda>i. (1, NotUtf8))
       [(''t'', ''static'', ''5'', PyStr ''25''), (''u'', ''static'', ''6'', PyStr ''36'')] [] =
     (Inl UnicodeDecodeError, [InProgress (Running ''static'' ''t'')])"
proof -
  have "translate_newlines (replicate 101 (CHR ''a'')) = replicate 101 (CHR ''a'')"
    by code_simp
  then show ?thesis
    by (simp add: run_test_nonzero [where raw = "replicate 101 (CHR ''a'')"]
        run_tests_def run_test_undecodable)
qed

text \<open>
  C8, amended. For every test whose program run exits with a non-zero status and whose
  output decodes as UTF-8, whatever the test's kind and its expected output or checker
  (neither is consulted): the lines printed are the execution failure \<open>FailedBang\<close> and
  the exit status, then the captured standard output when it has at most 100 characters
  and the notice \<open>TooLong\<close> otherwise; the pass count is unchanged; nothing is raised,
  and the loop goes on with the remaining tests.
\<close>

theorem nonzero_exit_is_execution_failure:
  assumes "program test_input = (returncode, Utf8 raw)" and "returncode \<noteq> 0"
  shows "run_test program (name, test_type, test_input, test_output) passed_tests out =
       (Inr passed_tests,
        out @ [InProgress (Running test_type name), Error False True FailedBang,
               Error False True (ExitedNonZero returncode)] @
          (if length (translate_newlines raw) > 100 then [Error False False TooLong]
           else [Error False False Output,
                 Error False False (Verbatim (CHR '' '' # translate_newlines raw))]))
    \<and> run_tests_loop program ((name, test_type, test_input, test_output) # items)
         passed_tests out =
       run_tests_loop program items passed_tests
         (snd (run_test program (name, test_type, test_input, test_output) passed_tests out))"
  using assms by (simp add: run_test_nonzero)

theorem nonzero_exit_is_execution_failure_witness:
  "(\<lambda>i. (2::int, Utf8 ''oops'')) ''5'' = (2, Utf8 ''oops'') \<and> (2::int) \<noteq> 0 \<and>
   run_test (\<lambda>i. (2, Utf8 ''oops'')) (''t#json/atpy'', ''checker'', ''5'', PyNone) 0 [] =
     (Inr 0, [InProgress (Running ''checker'' ''t#json/atpy''), Error False True FailedBang,
              Error False True (ExitedNonZero 2), Error False False Output,
              Error False False (Verbatim '' oops'')]) \<and>
   run_tests_loop (\<lambda>i. (2, Utf8 ''oops''))
       [(''t#json/atpy'', ''checker'', ''5'', PyNone)] 0 [] =
     (Inr 0, [InProgress (Running ''checker'' ''t#json/atpy''), Error False True FailedBang,
              Error False True (ExitedNonZero 2), Error False False Output,
              Error False False (Verbatim '' oops'')])"
  using nonzero_exit_is_execution_failure
    [where program = "\<lambda>i. (2, Utf8 ''oops'')" and test_input = "''5''" and returncode = 2
      and raw = "''oops''" and name = "''t#json/atpy''" and test_type = "''checker''"
      and test_output = PyNone and passed_tests = 0 and out = "[]" and items = "[]"]
  by (simp add: strip_defs)


section \<open>The final report\<close>

text \<open>
  C10. The final report raises \<open>ZeroDivisionError\<close> only on the branch where the pass
  count differs from the number of tests and that number is 0. The count that
  \<open>run_tests\<close> returns is at most the number of tests, so when it differs from that
  number there is at least one test, and the report of a run never divides by zero.
\<close>

theorem report_division_never_by_zero:
  "(fst (report p n out0) = Inl ZeroDivisionError) = (p \<noteq> n \<and> n = 0) \<and>
   (run_tests program tests out = (Inr passed, out') \<longrightarrow>
      passed \<le> length tests \<and>
      (passed \<noteq> length tests \<longrightarrow> 1 \<le> length tests) \<and>
      fst (report passed (length tests) out'') \<noteq> Inl ZeroDivisionError)"
proof -
  have "passed \<le> length tests \<and> (passed \<noteq> length tests \<longrightarrow> 1 \<le> length tests) \<and>
      fst (report passed (length tests) out'') \<noteq> Inl ZeroDivisionError"
    if "run_tests program tests out = (Inr passed, out')"
  proof -
    have le: "passed \<le> length tests" using that by (rule run_tests_le)
    then show ?thesis by (auto simp: report_raises_iff)
  qed
  then show ?thesis by (simp add: report_raises_iff)
qed

theorem report_division_never_by_zero_witness:
  "(fst (report 0 0 []) = Inl ZeroDivisionError) = ((0::nat) \<noteq> 0 \<and> (0::nat) = 0) \<and>
   run_tests (\<lambda>i. (0, Utf8 ''26'')) [(''t'', ''static'', ''5'', PyStr ''25'')] [] =
     (Inr 0, [InProgress (Running ''static'' ''t''), Error False True FailedIn,
                Error False False ExpectedOutput, Error False False (Verbatim ''25''),
                Error False False ActualOutput, Error False False (Verbatim ''26'')]) \<and>
   (0::nat) \<le> length [(''t'', ''static'', ''5'', PyStr ''25'')] \<and>
   1 \<le> length [(''t'', ''static'', ''5'', PyStr ''25'')] \<and>
   fst (report 0 (length [(''t'', ''static'', ''5'', PyStr ''25'')]) []) \<noteq> Inl ZeroDivisionError"
proof -
  have r: "run_tests (\<lambda>i. (0, Utf8 ''26'')) [(''t'', ''static'', ''5'', PyStr ''25'')] [] =
     (Inr 0, [InProgress (Running ''static'' ''t''), Error False True FailedIn,
                Error False False ExpectedOutput, Error False False (Verbatim ''25''),
                Error False False ActualOutput, Error False False (Verbatim ''26'')])"
    by (simp add: run_defs io_defs strip_defs)
  show ?thesis
    using r report_division_never_by_zero
        [of 0 0 "[]" "\<lambda>i. (0, Utf8 ''26'')" "[(''t'', ''static'', ''5'', PyStr ''25'')]" "[]" 0
        "[InProgress (Running ''static'' ''t''), Error False True FailedIn,
                Error False False ExpectedOutput, Error False False (Verbatim ''25''),
                Error False False ActualOutput, Error False False (Verbatim ''26'')]" "[]"]
    by simp
qed

text \<open>
  C2, as the claim states it, fails: the directory holds one paired test, the program
  prints another answer, no test passes, the tally line is printed, and the exit status
  is still 0.
\<close>

theorem failed_test_exit_status_zero:
  "get_tests \<lparr>listing = [''t.in'', ''t.out''],
              contents = map_of [(''t.in'', ''5''), (''t.out'', ''25'')],
              import_test = (\<lambda>name. Inl ImportError), json_load = Inl OSError\<rparr>
     = Inr [(''t#in/out'', ''static'', ''5'', PyStr ''25'')] \<and>
   main \<lparr>listing = [''t.in'', ''t.out''],
              contents = map_of [(''t.in'', ''5''), (''t.out'', ''25'')],
              import_test = (\<lambda>name. Inl ImportError), json_load = Inl OSError\<rparr>
        (\<lambda>i. (0, Utf8 ''26'')) []
     = (Inr (), [InProgress (Running ''static'' ''t#in/out''), Error False True FailedIn,
                Error False False ExpectedOutput, Error False False (Verbatim ''25''),
                Error False False ActualOutput, Error False False (Verbatim ''26''),
                Blank, Error False True (Tally 0 1)]) \<and>
   exit_status (fst (main \<lparr>listing = [''t.in'', ''t.out''],
              contents = map_of [(''t.in'', ''5''), (''t.out'', ''25'')],
              import_test = (\<lambda>name. Inl ImportError), json_load = Inl OSError\<rparr>
           (\<lambda>i. (0, Utf8 ''26'')) [])) = 0"
  by (simp add: discovery_defs run_defs io_defs strip_defs)

text \<open>
  C2, amended. For every run that reaches the final report, the exit status is the
  success status 0, both when every test passed and when at least one did not: the
  tally is printed by \<open>print_error\<close> with \<open>exit_program\<close> false. Only the last line
  printed tells the two apart.
\<close>

theorem exit_status_zero_at_final_report:
  assumes "get_tests d = Inr tests" and "run_tests program tests out = (Inr passed, out')"
  shows "exit_status (fst (main d program out)) = 0 \<and>
    snd (main d program out) =
      out' @ [Blank, if passed = length tests then Success AllPassed
                     else Error False True (Tally passed (length tests))]"
  using main_at_report [OF assms] by simp

theorem exit_status_zero_at_final_report_witness:
  "get_tests \<lparr>listing = [''a.in'', ''a.out''],
              contents = map_of [(''a.in'', ''1''), (''a.out'', ''1'')],
              import_test = (\<lambda>name. Inl ImportError), json_load = Inl OSError\<rparr>
     = Inr [(''a#in/out'', ''static'', ''1'', PyStr ''1'')] \<and>
   run_tests (\<lambda>i. (0, Utf8 i)) [(''a#in/out'', ''static'', ''1'', PyStr ''1'')] []
     = (Inr 1, [InProgress (Running ''static'' ''a#in/out''), Success PassedIn]) \<and>
   exit_status (fst (main \<lparr>listing = [''a.in'', ''a.out''],
              contents = map_of [(''a.in'', ''1''), (''a.out'', ''1'')],
              import_test = (\<lambda>name. Inl ImportError), json_load = Inl OSError\<rparr>
           (\<lambda>i. (0, Utf8 i)) [])) = 0"
proof -
  let ?d = "\<lparr>listing = [''a.in'', ''a.out''],
              contents = map_of [(''a.in'', ''1''), (''a.out'', ''1'')],
              import_test = (\<lambda>name. Inl ImportError), json_load = Inl OSError\<rparr>"
  have g: "get_tests ?d = Inr [(''a#in/out'', ''static'', ''1'', PyStr ''1'')]"
    by (simp add: discovery_defs)
  have r: "run_tests (\<lambda>i. (0, Utf8 i)) [(''a#in/out'', ''static'', ''1'', PyStr ''1'')] []
     = (Inr 1, [InProgress (Running ''static'' ''a#in/out''), Success PassedIn])"
    by (simp add: run_defs io_defs strip_defs)
  show ?thesis using exit_status_zero_at_final_report [OF g r] g r by simp
qed


section \<open>Discovery\<close>

lemma map_of_dict_set: "map_of (dict_set k v d) = (map_of d)(k \<mapsto> v)"
  by (induction d) (auto simp: fun_upd_twist)

lemma suffix_drop:
  assumes "a @ s = b @ t" and "length s \<le> length t"
  shows "drop (length t - length s) t = s"
proof -
  have "drop (length a) (a @ s) = drop (length a) (b @ t)" using assms(1) by simp
  moreover have "length (a @ s) = length (b @ t)" using assms(1) by simp
  then have "length a = length b + (length t - length s)"
    using assms(2) by simp
  ultimately show ?thesis by simp
qed



lemma key_out_py: "n @ ''#in/out'' \<noteq> m @ ''#in/py''"
  using suffix_drop [of m "''#in/py''" n "''#in/out''"] by auto



lemma key_json_jsonatpy: "n @ ''#json'' \<noteq> m @ ''#json/atpy''"
  using suffix_drop [of n "''#json''" m "''#json/atpy''"] by auto














lemma json_loop_append:
  "json_loop a (xs @ ys) tests = json_loop a ys (json_loop a xs tests)"
  by (induction xs arbitrary: tests) simp_all

lemma json_entry_skip:
  "length test \<noteq> 1 \<Longrightarrow> length test \<noteq> 2 \<Longrightarrow> json_entry a (name, test) tests = tests"
  by (simp add: json_entry_def)

lemma isfile_json_load: "isfile (d\<lparr>json_load := j\<rparr>) = isfile d"
  by (intro ext) (simp add: isfile_def)

lemma read_file_json_load: "read_file (d\<lparr>json_load := j\<rparr>) = read_file d"
  by (intro ext) (simp add: read_file_def)

lemma import_test_json_load: "import_test (d\<lparr>json_load := j\<rparr>) = import_test d"
  by simp

lemma in_file_json_load: "in_file (d\<lparr>json_load := j\<rparr>) = in_file d"
  unfolding in_file_def isfile_json_load read_file_json_load import_test_json_load ..

lemma in_loop_json_load: "in_loop (d\<lparr>json_load := j\<rparr>) a xs tests = in_loop d a xs tests"
  by (induction xs arbitrary: tests) (simp_all add: in_file_json_load split: sum.splits)

lemma glob_in_json_load: "glob_in (d\<lparr>json_load := j\<rparr>) = glob_in d"
  by (simp add: glob_in_def)

lemma json_loop_skip:
  assumes "length test \<noteq> 1" and "length test \<noteq> 2"
  shows "json_loop a (before @ (name, test) # after) tests = json_loop a (before @ after) tests"
  using assms by (simp add: json_loop_append json_entry_skip)

text \<open>
  C5, amended. For every manifest entry whose value list has a length other than 1 or
  2, discovery does not fail: the loop body leaves the test set as it is, and the
  result of discovery is the one the same manifest without that entry gives.
\<close>

theorem malformed_manifest_entry_skipped:
  assumes "length test \<noteq> 1" and "length test \<noteq> 2"
  shows "json_entry alltests (name, test) tests = tests \<and>
         get_tests (d\<lparr>json_load := Inr (before @ (name, test) # after)\<rparr>) =
         get_tests (d\<lparr>json_load := Inr (before @ after)\<rparr>)"
  using assms
  by (simp add: json_entry_skip get_tests_def in_loop_json_load isfile_json_load
      glob_in_json_load json_loop_skip split: sum.splits)

text \<open>
  C5, as the claim states it, fails: a manifest whose only entry has three elements
  gives the empty test set, without error.
\<close>

theorem three_element_entry_no_error:
  "get_tests \<lparr>listing = [''TESTS.json''], contents = map_of [(''TESTS.json'', ''{..}'')],
              import_test = (\<lambda>name. Inl ImportError),
              json_load = Inr [(''t3'', [''5'', ''25'', ''x''])]\<rparr> = Inr []"
  by (simp add: discovery_defs)

theorem malformed_manifest_entry_skipped_witness:
  "length [''5'', ''25'', ''x''] \<noteq> 1 \<and> length [''5'', ''25'', ''x''] \<noteq> 2 \<and>
   json_entry PyNone (''t3'', [''5'', ''25'', ''x'']) [] = [] \<and>
   get_tests \<lparr>listing = [''TESTS.json''], contents = map_of [(''TESTS.json'', ''{..}'')],
              import_test = (\<lambda>name. Inl ImportError),
              json_load = Inr [(''t2'', [''5'', ''25'']), (''t3'', [''5'', ''25'', ''x''])]\<rparr>
     = Inr [(''t2#json'', ''static'', ''5'', PyStr ''25'')]"
  using malformed_manifest_entry_skipped [where test = "[''5'', ''25'', ''x'']" and alltests = PyNone and name = "''t3''"
      and tests = "[]" and before = "[(''t2'', [''5'', ''25''])]" and after = "[]"
      and d = "\<lparr>listing = [''TESTS.json''], contents = map_of [(''TESTS.json'', ''{..}'')],
              import_test = (\<lambda>name. Inl ImportError), json_load = Inl OSError\<rparr>"]
  by (simp add: discovery_defs)





lemma json_loop_keeps_jsonatpy:
  "name \<notin> fst ` set entries \<Longrightarrow>
     map_of (json_loop a entries tests) (name @ ''#json/atpy'') =
     map_of tests (name @ ''#json/atpy'')"
  by (induction entries arbitrary: tests)
     (auto simp: json_entry_def map_of_dict_set key_json_jsonatpy)

lemma json_loop_one:
  assumes "(name, [test_input]) \<in> set entries" and "distinct (map fst entries)"
  shows "map_of (json_loop a entries tests) (name @ ''#json/atpy'') =
           Some (''checker'', test_input, a)"
  using assms
proof (induction entries arbitrary: tests)
  case Nil
  then show ?case by simp
next
  case (Cons e es)
  show ?case
  proof (cases "e = (name, [test_input])")
    case True
    then have "name \<notin> fst ` set es" using Cons.prems(2) by auto
    then show ?thesis using True
      by (simp add: json_loop_keeps_jsonatpy json_entry_def map_of_dict_set)
  next
    case False
    then show ?thesis using Cons by auto
  qed
qed

text \<open>
  C9, amended. For every manifest entry consisting of only an input, when no shared
  bulk checker module exists (and the input files were read without error), discovery
  raises nothing for the entry and does not skip it: the test set holds a test of kind
  \<open>checker\<close> with the entry's input under the key \<open>name#json/atpy\<close>.
\<close>

theorem input_only_entry_recorded_without_bulk_checker:
  assumes "\<not> isfile d ''ALLTESTS.py''" and "isfile d ''TESTS.json''"
    and "json_load d = Inr entries" and "distinct (map fst entries)"
    and "(name, [test_input]) \<in> set entries"
    and "in_loop d PyNone (glob_in d) [] = Inr tests0"
  shows "\<exists>tests checker. get_tests d = Inr tests \<and>
           map_of tests (name @ ''#json/atpy'') = Some (''checker'', test_input, checker)"
  using assms by (simp add: get_tests_def json_loop_one)

text \<open>
  C9, as the claim states it, fails: without \<open>ALLTESTS.py\<close>, the one-element entry
  \<open>t1\<close> becomes a test whose checker is \<open>None\<close>, and discovery raises nothing.
\<close>

theorem input_only_entry_gets_absent_checker:
  "get_tests \<lparr>listing = [''TESTS.json''], contents = map_of [(''TESTS.json'', ''{..}'')],
              import_test = (\<lambda>name. Inl ImportError),
              json_load = Inr [(''t1'', [''5''])]\<rparr>
     = Inr [(''t1#json/atpy'', ''checker'', ''5'', PyNone)]"
  by (simp add: discovery_defs)

theorem input_only_entry_recorded_without_bulk_checker_witness:
  "\<exists>tests checker.
     get_tests \<lparr>listing = [''TESTS.json''], contents = map_of [(''TESTS.json'', ''{..}'')],
              import_test = (\<lambda>name. Inl ImportError),
              json_load = Inr [(''t1'', [''5'']), (''t2'', [''5'', ''25''])]\<rparr> = Inr tests \<and>
     map_of tests (''t1'' @ ''#json/atpy'') = Some (''checker'', ''5'', checker)"
proof -
  let ?d = "\<lparr>listing = [''TESTS.json''], contents = map_of [(''TESTS.json'', ''{..}'')],
              import_test = (\<lambda>name. Inl ImportError),
              json_load = Inr [(''t1'', [''5'']), (''t2'', [''5'', ''25''])]\<rparr>"
  have "\<not> isfile ?d ''ALLTESTS.py''" by (simp add: isfile_def)
  moreover have "isfile ?d ''TESTS.json''" by (simp add: isfile_def)
  moreover have "json_load ?d = Inr [(''t1'', [''5'']), (''t2'', [''5'', ''25''])]" by simp
  moreover have "distinct (map fst [(''t1'', [''5'']), (''t2'', [''5'', ''25''])])" by simp
  moreover have "(''t1'', [''5'']) \<in> set [(''t1'', [''5'']), (''t2'', [''5'', ''25''])]" by simp
  moreover have "in_loop ?d PyNone (glob_in ?d) [] = Inr []"
    by (simp add: glob_in_def matches_in_def)
  ultimately show ?thesis by (rule input_only_entry_recorded_without_bulk_checker)
qed

end
